theory Spec2Isabelle
  imports Main
begin

section \<open>Values shared by the resources\<close>

text \<open>
  Go strings are byte sequences; they are modelled as \<open>string\<close> (a list of 8-bit
  characters). The double quote and the line feed are written by their codes.
\<close>

definition dquote :: char where
  "dquote = CHR 0x22"

definition newline :: char where
  "newline = CHR 0x0A"

text \<open>\<open>pointer.From\<close>: the pointee, or the zero value of the type for a nil pointer.\<close>

definition From_string :: "string option \<Rightarrow> string" where
  "From_string p = (case p of None \<Rightarrow> [] | Some s \<Rightarrow> s)"

definition From_int64 :: "int option \<Rightarrow> int" where
  "From_int64 p = (case p of None \<Rightarrow> 0 | Some n \<Rightarrow> n)"

section \<open>Regular expressions of the schema validators\<close>

text \<open>
  The patterns of the source use literals, character classes, alternation, \<open>?\<close> and
  \<open>+\<close>, and are anchored at both ends (\<open>^...$\<close>), so a string matches when the whole
  string belongs to the language of the pattern. \<open>accepts\<close> is that language;
  \<open>MatchString\<close> decides it by derivatives.
\<close>

datatype regex =
    Never
  | Eps
  | Atom "char \<Rightarrow> bool"
  | Alt regex regex
  | Seq regex regex
  | Star regex

definition Plus :: "regex \<Rightarrow> regex" where
  "Plus r = Seq r (Star r)"

definition Opt :: "regex \<Rightarrow> regex" where
  "Opt r = Alt r Eps"

fun Lit :: "string \<Rightarrow> regex" where
  "Lit [] = Eps"
| "Lit (c # cs) = Seq (Atom (\<lambda>x. x = c)) (Lit cs)"

inductive accepts :: "regex \<Rightarrow> string \<Rightarrow> bool" where
  acc_Eps: "accepts Eps []"
| acc_Atom: "p c \<Longrightarrow> accepts (Atom p) [c]"
| acc_AltL: "accepts r s \<Longrightarrow> accepts (Alt r r') s"
| acc_AltR: "accepts r' s \<Longrightarrow> accepts (Alt r r') s"
| acc_Seq: "accepts r s \<Longrightarrow> accepts r' t \<Longrightarrow> accepts (Seq r r') (s @ t)"
| acc_StarNil: "accepts (Star r) []"
| acc_StarStep: "accepts r s \<Longrightarrow> accepts (Star r) t \<Longrightarrow> accepts (Star r) (s @ t)"

inductive_cases acc_NeverE: "accepts Never s"
inductive_cases acc_EpsE: "accepts Eps s"
inductive_cases acc_AtomE: "accepts (Atom p) s"
inductive_cases acc_AltE: "accepts (Alt r r') s"
inductive_cases acc_SeqE: "accepts (Seq r r') s"

fun nullable :: "regex \<Rightarrow> bool" where
  "nullable Never = False"
| "nullable Eps = True"
| "nullable (Atom p) = False"
| "nullable (Alt r r') = (nullable r \<or> nullable r')"
| "nullable (Seq r r') = (nullable r \<and> nullable r')"
| "nullable (Star r) = True"

fun deriv :: "char \<Rightarrow> regex \<Rightarrow> regex" where
  "deriv c Never = Never"
| "deriv c Eps = Never"
| "deriv c (Atom p) = (if p c then Eps else Never)"
| "deriv c (Alt r r') = Alt (deriv c r) (deriv c r')"
| "deriv c (Seq r r') =
     (if nullable r then Alt (Seq (deriv c r) r') (deriv c r') else Seq (deriv c r) r')"
| "deriv c (Star r) = Seq (deriv c r) (Star r)"

definition MatchString :: "regex \<Rightarrow> string \<Rightarrow> bool" where
  "MatchString r s = nullable (fold deriv s r)"

section \<open>Schema validators\<close>

datatype validation_error =
    NotInRange int int int
  | NotDivisibleBy int int
  | NoMatch string

type_synonym 'a SchemaValidateFunc = "'a \<Rightarrow> validation_error list"

text \<open>
  Modelled from the spec: \<open>validation.IntBetween\<close>, \<open>validation.IntDivisibleBy\<close>,
  \<open>validation.All\<close> and \<open>validation.StringMatch\<close> belong to the plugin SDK and are not
  among the source files. A validator returns the list of its errors; \<open>All\<close> runs every
  validator and collects their errors, so it is their conjunction.
\<close>

definition IntBetween :: "int \<Rightarrow> int \<Rightarrow> int SchemaValidateFunc" where
  "IntBetween lo hi v = (if v < lo \<or> v > hi then [NotInRange lo hi v] else [])"

definition IntDivisibleBy :: "int \<Rightarrow> int SchemaValidateFunc" where
  "IntDivisibleBy divisor v = (if v mod divisor \<noteq> 0 then [NotDivisibleBy divisor v] else [])"

definition All :: "'a SchemaValidateFunc list \<Rightarrow> 'a SchemaValidateFunc" where
  "All validators v = concat (map (\<lambda>f. f v) validators)"

definition StringMatch :: "regex \<Rightarrow> string \<Rightarrow> string SchemaValidateFunc" where
  "StringMatch r message v = (if MatchString r v then [] else [NoMatch message])"

definition accepted :: "'a SchemaValidateFunc \<Rightarrow> 'a \<Rightarrow> bool" where
  "accepted f v = (f v = [])"

section \<open>azurerm_data_factory_integration_runtime_azure_ssis: schema\<close>

definition is_alnum :: "char \<Rightarrow> bool" where
  "is_alnum c = (let n = (of_char c :: nat) in
     (97 \<le> n \<and> n \<le> 122) \<or> (65 \<le> n \<and> n \<le> 90) \<or> (48 \<le> n \<and> n \<le> 57))"

text \<open>The pattern \<^verbatim>\<open>^([a-zA-Z0-9](-|-?[a-zA-Z0-9]+)+[a-zA-Z0-9])$\<close> of the \<open>name\<close> field.\<close>

definition name_regex :: regex where
  "name_regex =
     Seq (Atom is_alnum)
       (Seq (Plus (Alt (Lit ''-'') (Seq (Opt (Lit ''-'')) (Plus (Atom is_alnum)))))
            (Atom is_alnum))"

definition name_ValidateFunc :: "string SchemaValidateFunc" where
  "name_ValidateFunc =
     StringMatch name_regex
       ''Invalid name for Managed Integration Runtime: minimum 3 characters, must start and end with a number or a letter, may only consist of letters, numbers and dashes and no consecutive dashes.''"

definition data_integration_unit_ValidateFunc :: "int SchemaValidateFunc" where
  "data_integration_unit_ValidateFunc = All [IntBetween 4 256, IntDivisibleBy 4]"

section \<open>Resource IDs, errors and the API client\<close>

text \<open>
  The typed resource IDs of the SDK, by their segments (subscription, resource group,
  names). \<open>resource_id\<close> is the interface \<open>resourceids.ResourceId\<close> they implement.
\<close>

datatype FactoryId = FactoryId string string string

datatype IntegrationRuntimeId = IntegrationRuntimeId string string string string

datatype WorkspaceId = WorkspaceId string string string

datatype ClusterId = ClusterId string string string

datatype resource_id =
    OfFactory FactoryId
  | OfIntegrationRuntime IntegrationRuntimeId
  | OfWorkspace WorkspaceId
  | OfCluster ClusterId

text \<open>
  Go errors as values. \<open>ApiError\<close> is an error returned by an SDK client call and
  \<open>ParseError\<close> one returned by an ID parser of the SDK. \<open>Errorf fmt args\<close> is
  \<open>fmt.Errorf(fmt, args...)\<close> with its arguments kept, \<open>ImportAsExistsError\<close> is
  \<open>tf.ImportAsExistsError(resourceName, id)\<close>, and \<open>Panic\<close> stands for a run-time
  panic (a nil dereference or a failed type assertion), which returns no error at all.
\<close>

datatype error =
    ApiError string
  | ParseError string
  | Errorf string "fmt_arg list"
  | ImportAsExistsError string string
  | Panic
and fmt_arg =
    ArgId resource_id
  | ArgString string
  | ArgError "error option"

text \<open>
  Modelled from the spec: \<open>response.WasNotFound\<close> (go-azure-helpers) is not among the
  source files. The response is the status code of the HTTP response, \<open>None\<close> for a nil
  response; not-found is status 404.
\<close>

definition WasNotFound :: "nat option \<Rightarrow> bool" where
  "WasNotFound resp = (case resp of None \<Rightarrow> False | Some code \<Rightarrow> code = 404)"

text \<open>
  The result of a \<open>Get\<close> of the SDK: the operation response (\<open>HttpResponse\<close> and
  \<open>Model\<close>, either may be nil) and the error.
\<close>

record 'm GetOperationResponse =
  HttpResponse :: "nat option"
  Model :: "'m option"

text \<open>
  The API client is an external collaborator. Each of its calls is a transition of a
  remote world \<open>'w\<close> that nothing else is known about: it takes the world, and returns
  its result and the next world.
\<close>

record ('w, 'm) client =
  client_Get :: "resource_id \<Rightarrow> 'w \<Rightarrow> ('m GetOperationResponse \<times> error option) \<times> 'w"
  client_CreateOrUpdate :: "resource_id \<Rightarrow> 'm \<Rightarrow> 'w \<Rightarrow> error option \<times> 'w"
  client_Delete :: "resource_id \<Rightarrow> 'w \<Rightarrow> (nat option \<times> error option) \<times> 'w"

text \<open>What an operation did, in order: the client calls and the lock operations.\<close>

datatype 'm event =
    CalledGet resource_id
  | CalledCreateOrUpdate resource_id 'm
  | CalledDelete resource_id
  | CalledWaitForState resource_id
  | Locked string
  | Unlocked string

text \<open>
  The state an operation runs in: the remote world, the trace of events so far and the
  names of the locks that are held.
\<close>

record ('w, 'm) sys =
  world :: 'w
  trace :: "'m event list"
  held :: "string list"

definition Get :: "('w, 'm) client \<Rightarrow> resource_id \<Rightarrow> ('w, 'm) sys \<Rightarrow>
    ('m GetOperationResponse \<times> error option) \<times> ('w, 'm) sys" where
  "Get c i s =
     (let (r, w) = client_Get c i (world s)
      in (r, s\<lparr>world := w, trace := trace s @ [CalledGet i]\<rparr>))"

definition CreateOrUpdate :: "('w, 'm) client \<Rightarrow> resource_id \<Rightarrow> 'm \<Rightarrow> ('w, 'm) sys \<Rightarrow>
    error option \<times> ('w, 'm) sys" where
  "CreateOrUpdate c i payload s =
     (let (e, w) = client_CreateOrUpdate c i payload (world s)
      in (e, s\<lparr>world := w, trace := trace s @ [CalledCreateOrUpdate i payload]\<rparr>))"

definition Delete :: "('w, 'm) client \<Rightarrow> resource_id \<Rightarrow> ('w, 'm) sys \<Rightarrow>
    (nat option \<times> error option) \<times> ('w, 'm) sys" where
  "Delete c i s =
     (let (r, w) = client_Delete c i (world s)
      in (r, s\<lparr>world := w, trace := trace s @ [CalledDelete i]\<rparr>))"

text \<open>
  \<open>pluginsdk.ResourceData\<close>: the tracked state of one resource instance, its ID (empty
  when the resource is not tracked), whether it is being created, and the values of its
  schema fields, typed as the schema declares them.
\<close>

record 'f ResourceData =
  ResourceData_Id :: string
  IsNewResource :: bool
  Fields :: 'f

definition SetId :: "string \<Rightarrow> 'f ResourceData \<Rightarrow> 'f ResourceData" where
  "SetId v d = d\<lparr>ResourceData_Id := v\<rparr>"

section \<open>azurerm_data_factory_integration_runtime_azure_ssis: data model\<close>

subsection \<open>The API payload (package \<open>integrationruntimes\<close>)\<close>

text \<open>
  A pointer field is an \<open>option\<close>. The Go \<open>int\<close> of the schema and the \<open>int64\<close> of the
  payload are both \<open>int\<close>: the code only converts between them and does no arithmetic.
  The \<open>Type\<close> discriminators of the payload are constants and are left out.
\<close>

record IntegrationRuntimeVNetProperties =
  VNetId :: "string option"
  Subnet :: "string option"
  SubnetId :: "string option"
  PublicIPs :: "string list option"

record CopyComputeScaleProperties =
  DataIntegrationUnit :: "int option"
  Copy_TimeToLive :: "int option"

record PipelineExternalComputeScaleProperties =
  NumberOfExternalNodes :: "int option"
  NumberOfPipelineNodes :: "int option"
  TimeToLive :: "int option"

record IntegrationRuntimeComputeProperties =
  Location :: "string option"
  NodeSize :: "string option"
  NumberOfNodes :: "int option"
  MaxParallelExecutionsPerNode :: "int option"
  VNetProperties :: "IntegrationRuntimeVNetProperties option"
  CopyComputeScale :: "CopyComputeScaleProperties option"
  PipelineExternalComputeScale :: "PipelineExternalComputeScaleProperties option"

record AzureKeyVaultSecretReference =
  SecretName :: "string option"
  SecretVersion :: "string option"
  Store_ReferenceName :: string
  Store_Parameters :: "(string \<times> string) list option"

datatype SecretBase =
    SecureString string
  | KeyVaultSecretReference AzureKeyVaultSecretReference
  | OtherSecret

datatype CustomSetupBase =
    AzPowerShellSetup string
  | ComponentSetup string "SecretBase option"
  | EnvironmentVariableSetup string string
  | CmdkeySetup "string option" "string option" "SecretBase option"
  | OtherSetup

record IntegrationRuntimeSsisCatalogInfo =
  CatalogServerEndpoint :: "string option"
  CatalogAdminUserName :: "string option"
  CatalogAdminPassword :: "string option"
  CatalogPricingTier :: "string option"
  DualStandbyPairName :: "string option"

record IntegrationRuntimeCustomSetupScriptProperties =
  BlobContainerUri :: "string option"
  SasToken :: "string option"

record EntityReference =
  ReferenceName :: "string option"

record IntegrationRuntimeDataProxyProperties =
  ConnectVia :: "EntityReference option"
  StagingLinkedService :: "EntityReference option"
  Path :: "string option"

record PackageStore =
  PackageStore_Name :: string
  PackageStoreLinkedService :: EntityReference

record IntegrationRuntimeSsisProperties =
  LicenseType :: "string option"
  Edition :: "string option"
  DataProxyProperties :: "IntegrationRuntimeDataProxyProperties option"
  ExpressCustomSetupProperties :: "CustomSetupBase list option"
  PackageStores :: "PackageStore list option"
  Credential :: "string option"
  CatalogInfo :: "IntegrationRuntimeSsisCatalogInfo option"
  CustomSetupScriptProperties :: "IntegrationRuntimeCustomSetupScriptProperties option"

record ManagedIntegrationRuntime =
  Description :: "string option"
  ComputeProperties :: "IntegrationRuntimeComputeProperties option"
  SsisProperties :: "IntegrationRuntimeSsisProperties option"
  CustomerVirtualNetwork :: "string option"

text \<open>
  \<open>IntegrationRuntime\<close> is the interface of the \<open>Properties\<close> of a runtime; Read asserts
  that it is a \<open>ManagedIntegrationRuntime\<close>.
\<close>

datatype IntegrationRuntime =
    Managed ManagedIntegrationRuntime
  | OtherIntegrationRuntime

record IntegrationRuntimeResource =
  Resource_Name :: "string option"
  Properties :: IntegrationRuntime

subsection \<open>The configuration (the schema's blocks)\<close>

record vnet_integration_block =
  vnet_id :: string
  subnet_id :: string
  subnet_name :: string
  public_ips :: "string list"

record copy_compute_scale_block =
  data_integration_unit :: int
  copy_time_to_live :: int

record pipeline_external_compute_scale_block =
  number_of_external_nodes :: int
  number_of_pipeline_nodes :: int
  time_to_live :: int

record catalog_info_block =
  server_endpoint :: string
  administrator_login :: string
  administrator_password :: string
  pricing_tier :: string
  elastic_pool_name :: string
  dual_standby_pair_name :: string

record custom_setup_script_block =
  blob_container_uri :: string
  sas_token :: string

record key_vault_secret_block =
  linked_service_name :: string
  parameters :: "(string \<times> string) list"
  secret_name :: string
  secret_version :: string

record component_block =
  component_name :: string
  license :: string
  key_vault_license :: "key_vault_secret_block list"

record command_key_block =
  target_name :: string
  user_name :: string
  password :: string
  key_vault_password :: "key_vault_secret_block list"

record express_custom_setup_block =
  environment :: "(string \<times> string) list"
  powershell_version :: string
  component :: "component_block list"
  command_key :: "command_key_block list"

record package_store_block =
  package_store_name :: string
  package_store_linked_service_name :: string

record proxy_block =
  self_hosted_integration_runtime_name :: string
  staging_storage_linked_service_name :: string
  path :: string

record express_vnet_integration_block =
  express_subnet_id :: string

record ssis_fields =
  name :: string
  description :: string
  data_factory_id :: string
  location :: string
  node_size :: string
  number_of_nodes :: int
  max_parallel_executions_per_node :: int
  credential_name :: string
  edition :: string
  license_type :: string
  copy_compute_scale :: "copy_compute_scale_block list"
  express_vnet_integration :: "express_vnet_integration_block list"
  vnet_integration :: "vnet_integration_block list"
  custom_setup_script :: "custom_setup_script_block list"
  catalog_info :: "catalog_info_block list"
  express_custom_setup :: "express_custom_setup_block list"
  package_store :: "package_store_block list"
  pipeline_external_compute_scale :: "pipeline_external_compute_scale_block list"
  proxy :: "proxy_block list"

text \<open>
  The functions of the SDK and of the provider's helper packages that the resource calls
  and that are not among the source files: the ID parsers and the \<open>ID()\<close> method of the
  resource IDs, \<open>location.Normalize\<close> and \<open>location.NormalizeNilable\<close>, and
  \<open>utils.ExpandStringSlice\<close> and \<open>utils.FlattenStringSlice\<close>. They are parameters.
\<close>

record ssis_sdk =
  ParseFactoryID :: "string \<Rightarrow> error + FactoryId"
  ParseIntegrationRuntimeID :: "string \<Rightarrow> error + IntegrationRuntimeId"
  ssis_ID :: "resource_id \<Rightarrow> string"
  Normalize :: "string \<Rightarrow> string"
  NormalizeNilable :: "string option \<Rightarrow> string"
  ExpandStringSlice :: "string list \<Rightarrow> string list option"
  FlattenStringSlice :: "string list option \<Rightarrow> string list"

text \<open>The configuration with every field at its zero value, and a tracked state of it.\<close>

definition ssis_zero_fields :: ssis_fields where
  "ssis_zero_fields =
     \<lparr>name = [], description = [], data_factory_id = [], location = [], node_size = [],
      number_of_nodes = 0, max_parallel_executions_per_node = 0, credential_name = [],
      edition = [], license_type = [], copy_compute_scale = [],
      express_vnet_integration = [], vnet_integration = [], custom_setup_script = [],
      catalog_info = [], express_custom_setup = [], package_store = [],
      pipeline_external_compute_scale = [], proxy = []\<rparr>"

definition ssis_zero_data :: "ssis_fields ResourceData" where
  "ssis_zero_data = \<lparr>ResourceData_Id = [], IsNewResource = False, Fields = ssis_zero_fields\<rparr>"

section \<open>azurerm_data_factory_integration_runtime_azure_ssis: expand\<close>

text \<open>
  \<open>d.GetOk(key)\<close> of a list field is ok when the list is not empty, and
  \<open>lst[0].(map[string]interface{})\<close> is its first block. A function that can dereference
  a nil pointer returns an \<open>option\<close>, with \<open>None\<close> for the panic.
\<close>

definition expand_vnet_integration :: "ssis_sdk \<Rightarrow> vnet_integration_block list \<Rightarrow>
    IntegrationRuntimeComputeProperties \<Rightarrow> IntegrationRuntimeComputeProperties option" where
  "expand_vnet_integration sdk vnetIntegrations computeProperties =
     (case vnetIntegrations of
        [] \<Rightarrow> Some computeProperties
      | vnetProps # _ \<Rightarrow>
          let cp1 = (if vnet_id vnetProps \<noteq> []
                     then computeProperties\<lparr>VNetProperties := Some
                            \<lparr>VNetId = Some (vnet_id vnetProps),
                             Subnet = Some (subnet_name vnetProps),
                             SubnetId = None, PublicIPs = None\<rparr>\<rparr>
                     else computeProperties);
              cp2 = (if subnet_id vnetProps \<noteq> []
                     then cp1\<lparr>VNetProperties := Some
                            \<lparr>VNetId = None, Subnet = None,
                             SubnetId = Some (subnet_id vnetProps), PublicIPs = None\<rparr>\<rparr>
                     else cp1)
          in if public_ips vnetProps \<noteq> []
             then (case VNetProperties cp2 of
                     None \<Rightarrow> None
                   | Some v \<Rightarrow> Some (cp2\<lparr>VNetProperties :=
                       Some (v\<lparr>PublicIPs := ExpandStringSlice sdk (public_ips vnetProps)\<rparr>)\<rparr>))
             else Some cp2)"

definition new_CopyComputeScaleProperties :: "CopyComputeScaleProperties option \<Rightarrow>
    CopyComputeScaleProperties" where
  "new_CopyComputeScaleProperties p =
     (case p of None \<Rightarrow> \<lparr>DataIntegrationUnit = None, Copy_TimeToLive = None\<rparr> | Some x \<Rightarrow> x)"

definition expand_copy_compute_scale :: "copy_compute_scale_block list \<Rightarrow>
    IntegrationRuntimeComputeProperties \<Rightarrow> IntegrationRuntimeComputeProperties" where
  "expand_copy_compute_scale copyComputeScales computeProperties =
     (case copyComputeScales of
        [] \<Rightarrow> computeProperties
      | copyComputeScale # _ \<Rightarrow>
          let cp1 = (if data_integration_unit copyComputeScale \<noteq> 0
                     then computeProperties\<lparr>CopyComputeScale := Some
                            ((new_CopyComputeScaleProperties (CopyComputeScale computeProperties))
                               \<lparr>DataIntegrationUnit := Some (data_integration_unit copyComputeScale)\<rparr>)\<rparr>
                     else computeProperties)
          in (if copy_time_to_live copyComputeScale \<noteq> 0
              then cp1\<lparr>CopyComputeScale := Some
                     ((new_CopyComputeScaleProperties (CopyComputeScale cp1))
                        \<lparr>Copy_TimeToLive := Some (copy_time_to_live copyComputeScale)\<rparr>)\<rparr>
              else cp1))"

definition new_PipelineExternalComputeScaleProperties ::
    "PipelineExternalComputeScaleProperties option \<Rightarrow> PipelineExternalComputeScaleProperties" where
  "new_PipelineExternalComputeScaleProperties p =
     (case p of
        None \<Rightarrow> \<lparr>NumberOfExternalNodes = None, NumberOfPipelineNodes = None, TimeToLive = None\<rparr>
      | Some x \<Rightarrow> x)"

definition expand_pipeline_external_compute_scale ::
    "pipeline_external_compute_scale_block list \<Rightarrow>
     IntegrationRuntimeComputeProperties \<Rightarrow> IntegrationRuntimeComputeProperties" where
  "expand_pipeline_external_compute_scale pipelineExternalComputeScales computeProperties =
     (case pipelineExternalComputeScales of
        [] \<Rightarrow> computeProperties
      | pipelineExternalComputeScale # _ \<Rightarrow>
          let cp1 = (if number_of_external_nodes pipelineExternalComputeScale \<noteq> 0
                     then computeProperties\<lparr>PipelineExternalComputeScale := Some
                            ((new_PipelineExternalComputeScaleProperties
                                (PipelineExternalComputeScale computeProperties))
                               \<lparr>NumberOfExternalNodes :=
                                  Some (number_of_external_nodes pipelineExternalComputeScale)\<rparr>)\<rparr>
                     else computeProperties);
              cp2 = (if number_of_pipeline_nodes pipelineExternalComputeScale \<noteq> 0
                     then cp1\<lparr>PipelineExternalComputeScale := Some
                            ((new_PipelineExternalComputeScaleProperties
                                (PipelineExternalComputeScale cp1))
                               \<lparr>NumberOfPipelineNodes :=
                                  Some (number_of_pipeline_nodes pipelineExternalComputeScale)\<rparr>)\<rparr>
                     else cp1)
          in (if time_to_live pipelineExternalComputeScale \<noteq> 0
              then cp2\<lparr>PipelineExternalComputeScale := Some
                     ((new_PipelineExternalComputeScaleProperties
                         (PipelineExternalComputeScale cp2))
                        \<lparr>TimeToLive := Some (time_to_live pipelineExternalComputeScale)\<rparr>)\<rparr>
              else cp2))"

definition expandDataFactoryIntegrationRuntimeAzureSsisComputeProperties ::
    "ssis_sdk \<Rightarrow> ssis_fields ResourceData \<Rightarrow> IntegrationRuntimeComputeProperties option" where
  "expandDataFactoryIntegrationRuntimeAzureSsisComputeProperties sdk d =
     (let computeProperties =
            \<lparr>Location = Some (Normalize sdk (location (Fields d))),
             NodeSize = Some (node_size (Fields d)),
             NumberOfNodes = Some (number_of_nodes (Fields d)),
             MaxParallelExecutionsPerNode = Some (max_parallel_executions_per_node (Fields d)),
             VNetProperties = None, CopyComputeScale = None,
             PipelineExternalComputeScale = None\<rparr>
      in case expand_vnet_integration sdk (vnet_integration (Fields d)) computeProperties of
           None \<Rightarrow> None
         | Some cp1 \<Rightarrow>
             Some (expand_pipeline_external_compute_scale
                     (pipeline_external_compute_scale (Fields d))
                     (expand_copy_compute_scale (copy_compute_scale (Fields d)) cp1)))"

subsection \<open>The elastic pool name in the catalog pricing tier\<close>

definition elastic_pool_prefix :: string where
  "elastic_pool_prefix = ''ELASTIC_POOL(name='' @ [dquote]"

definition elastic_pool_suffix :: string where
  "elastic_pool_suffix = [dquote] @ '')''"

text \<open>\<^verbatim>\<open>fmt.Sprintf(`ELASTIC_POOL(name="%s")`, input)\<close>\<close>

definition formatDataFactoryIntegrationRuntimeElasticPool :: "string \<Rightarrow> string" where
  "formatDataFactoryIntegrationRuntimeElasticPool input =
     elastic_pool_prefix @ input @ elastic_pool_suffix"

text \<open>
  The pattern \<^verbatim>\<open>^ELASTIC_POOL\(name="(.+)"\)$\<close>. No flag is set, so \<open>.\<close> is any
  character but the line feed.
\<close>

definition elastic_pool_regex :: regex where
  "elastic_pool_regex =
     Seq (Lit elastic_pool_prefix)
       (Seq (Plus (Atom (\<lambda>c. c \<noteq> newline))) (Lit elastic_pool_suffix))"

text \<open>
  \<open>FindStringSubmatch\<close> for this pattern: nil when the input does not match, else the
  whole match and the text of the group. The pattern is anchored and the group stands
  between two literals, so the group is the input without the first 19 and the last 2
  characters (\<open>elastic_pool_group_unique\<close> below).
\<close>

definition elastic_pool_FindStringSubmatch :: "string \<Rightarrow> string list" where
  "elastic_pool_FindStringSubmatch input =
     (if MatchString elastic_pool_regex input
      then [input, take (length input - 21) (drop 19 input)]
      else [])"

definition parseDataFactoryIntegrationRuntimeElasticPool :: "string \<Rightarrow> string \<times> bool" where
  "parseDataFactoryIntegrationRuntimeElasticPool input =
     (let matches = elastic_pool_FindStringSubmatch input
      in if length matches \<noteq> 2 then ([], False) else (matches ! 1, True))"

subsection \<open>The SSIS properties\<close>

definition expandDataFactoryIntegrationRuntimeAzureSsisProxy ::
    "proxy_block list \<Rightarrow> IntegrationRuntimeDataProxyProperties option" where
  "expandDataFactoryIntegrationRuntimeAzureSsisProxy input =
     (case input of
        [] \<Rightarrow> None
      | raw # _ \<Rightarrow>
          Some \<lparr>ConnectVia =
                  Some \<lparr>ReferenceName = Some (self_hosted_integration_runtime_name raw)\<rparr>,
                StagingLinkedService =
                  Some \<lparr>ReferenceName = Some (staging_storage_linked_service_name raw)\<rparr>,
                Path = (if path raw \<noteq> [] then Some (path raw) else None)\<rparr>)"

definition expandDataFactoryIntegrationRuntimeAzureSsisKeyVaultSecretReference ::
    "key_vault_secret_block list \<Rightarrow> AzureKeyVaultSecretReference option" where
  "expandDataFactoryIntegrationRuntimeAzureSsisKeyVaultSecretReference input =
     (case input of
        [] \<Rightarrow> None
      | raw # _ \<Rightarrow>
          Some \<lparr>SecretName = Some (secret_name raw),
                SecretVersion = (if secret_version raw \<noteq> [] then Some (secret_version raw) else None),
                Store_ReferenceName = linked_service_name raw,
                Store_Parameters = (if parameters raw \<noteq> [] then Some (parameters raw) else None)\<rparr>)"

definition expand_component :: "component_block \<Rightarrow> CustomSetupBase" where
  "expand_component raw =
     ComponentSetup (component_name raw)
       (if license raw \<noteq> [] then Some (SecureString (license raw))
        else map_option KeyVaultSecretReference
               (expandDataFactoryIntegrationRuntimeAzureSsisKeyVaultSecretReference
                  (key_vault_license raw)))"

definition expand_command_key :: "command_key_block \<Rightarrow> CustomSetupBase" where
  "expand_command_key raw =
     CmdkeySetup (Some (target_name raw)) (Some (user_name raw))
       (if password raw \<noteq> [] then Some (SecureString (password raw))
        else map_option KeyVaultSecretReference
               (expandDataFactoryIntegrationRuntimeAzureSsisKeyVaultSecretReference
                  (key_vault_password raw)))"

text \<open>
  The \<open>environment\<close> map is an association list; the Go loop ranges over the map in an
  order the language leaves open, here the order of the list.
\<close>

definition expandDataFactoryIntegrationRuntimeAzureSsisExpressCustomSetUp ::
    "express_custom_setup_block list \<Rightarrow> CustomSetupBase list option" where
  "expandDataFactoryIntegrationRuntimeAzureSsisExpressCustomSetUp input =
     (case input of
        [] \<Rightarrow> None
      | raw # _ \<Rightarrow>
          Some (map (\<lambda>(k, v). EnvironmentVariableSetup k v) (environment raw)
                @ (if powershell_version raw \<noteq> []
                   then [AzPowerShellSetup (powershell_version raw)] else [])
                @ map expand_component (component raw)
                @ map expand_command_key (command_key raw)))"

definition expandDataFactoryIntegrationRuntimeAzureSsisPackageStore ::
    "package_store_block list \<Rightarrow> PackageStore list option" where
  "expandDataFactoryIntegrationRuntimeAzureSsisPackageStore input =
     (if length input = 0 then None
      else Some (map (\<lambda>raw. \<lparr>PackageStore_Name = package_store_name raw,
                               PackageStoreLinkedService =
                                 \<lparr>ReferenceName = Some (package_store_linked_service_name raw)\<rparr>\<rparr>)
                     input))"

definition expandDataFactoryIntegrationRuntimeCustomerVirtualNetwork ::
    "express_vnet_integration_block list \<Rightarrow> string option" where
  "expandDataFactoryIntegrationRuntimeCustomerVirtualNetwork input =
     (case input of [] \<Rightarrow> None | raw # _ \<Rightarrow> Some (express_subnet_id raw))"

definition expand_catalog_info :: "catalog_info_block list \<Rightarrow>
    IntegrationRuntimeSsisCatalogInfo option" where
  "expand_catalog_info catalogInfos =
     (case catalogInfos of
        [] \<Rightarrow> None
      | catalogInfo # _ \<Rightarrow>
          let pricingTier =
                (if elastic_pool_name catalogInfo \<noteq> []
                 then formatDataFactoryIntegrationRuntimeElasticPool (elastic_pool_name catalogInfo)
                 else pricing_tier catalogInfo)
          in Some \<lparr>CatalogServerEndpoint = Some (server_endpoint catalogInfo),
                   CatalogAdminUserName =
                     (if administrator_login catalogInfo \<noteq> []
                      then Some (administrator_login catalogInfo) else None),
                   CatalogAdminPassword =
                     (if administrator_password catalogInfo \<noteq> []
                      then Some (administrator_password catalogInfo) else None),
                   CatalogPricingTier = Some pricingTier,
                   DualStandbyPairName =
                     (if dual_standby_pair_name catalogInfo \<noteq> []
                      then Some (dual_standby_pair_name catalogInfo) else None)\<rparr>)"

definition expand_custom_setup_script :: "custom_setup_script_block list \<Rightarrow>
    IntegrationRuntimeCustomSetupScriptProperties option" where
  "expand_custom_setup_script customSetupScripts =
     (case customSetupScripts of
        [] \<Rightarrow> None
      | customSetupScript # _ \<Rightarrow>
          Some \<lparr>BlobContainerUri = Some (blob_container_uri customSetupScript),
                SasToken = Some (sas_token customSetupScript)\<rparr>)"

definition expandDataFactoryIntegrationRuntimeAzureSsisProperties ::
    "ssis_fields ResourceData \<Rightarrow> IntegrationRuntimeSsisProperties" where
  "expandDataFactoryIntegrationRuntimeAzureSsisProperties d =
     \<lparr>LicenseType = Some (license_type (Fields d)),
      Edition = Some (edition (Fields d)),
      DataProxyProperties = expandDataFactoryIntegrationRuntimeAzureSsisProxy (proxy (Fields d)),
      ExpressCustomSetupProperties =
        expandDataFactoryIntegrationRuntimeAzureSsisExpressCustomSetUp
          (express_custom_setup (Fields d)),
      PackageStores =
        expandDataFactoryIntegrationRuntimeAzureSsisPackageStore (package_store (Fields d)),
      Credential =
        (if credential_name (Fields d) \<noteq> [] then Some (credential_name (Fields d)) else None),
      CatalogInfo = expand_catalog_info (catalog_info (Fields d)),
      CustomSetupScriptProperties = expand_custom_setup_script (custom_setup_script (Fields d))\<rparr>"

section \<open>azurerm_data_factory_integration_runtime_azure_ssis: flatten\<close>

definition flattenDataFactoryIntegrationRuntimeAzureSsisVnetIntegration ::
    "ssis_sdk \<Rightarrow> IntegrationRuntimeVNetProperties option \<Rightarrow> vnet_integration_block list" where
  "flattenDataFactoryIntegrationRuntimeAzureSsisVnetIntegration sdk vnetProperties =
     (case vnetProperties of
        None \<Rightarrow> []
      | Some v \<Rightarrow>
          [\<lparr>vnet_id = From_string (VNetId v),
            subnet_id = From_string (SubnetId v),
            subnet_name = From_string (Subnet v),
            public_ips = FlattenStringSlice sdk (PublicIPs v)\<rparr>])"

definition flattenDataFactoryIntegrationRuntimeAzureSsisPipelineExternalComputeScaleProperties ::
    "PipelineExternalComputeScaleProperties option \<Rightarrow>
     pipeline_external_compute_scale_block list" where
  "flattenDataFactoryIntegrationRuntimeAzureSsisPipelineExternalComputeScaleProperties input =
     (case input of
        None \<Rightarrow> []
      | Some p \<Rightarrow>
          [\<lparr>number_of_external_nodes = From_int64 (NumberOfPipelineNodes p),
            number_of_pipeline_nodes = From_int64 (NumberOfPipelineNodes p),
            time_to_live = From_int64 (TimeToLive p)\<rparr>])"

definition flattenDataFactoryIntegrationRuntimeAzureSsisCopyComputeScale ::
    "CopyComputeScaleProperties option \<Rightarrow> copy_compute_scale_block list" where
  "flattenDataFactoryIntegrationRuntimeAzureSsisCopyComputeScale input =
     (case input of
        None \<Rightarrow> []
      | Some p \<Rightarrow>
          [\<lparr>data_integration_unit = From_int64 (DataIntegrationUnit p),
            copy_time_to_live = From_int64 (Copy_TimeToLive p)\<rparr>])"

text \<open>
  \<open>d.GetOk(key)\<close> of a string field inside the first block of a list: the value, and
  whether it is set and not the empty string.
\<close>

definition GetOk_administrator_password :: "ssis_fields ResourceData \<Rightarrow> string \<times> bool" where
  "GetOk_administrator_password d =
     (case catalog_info (Fields d) of
        [] \<Rightarrow> ([], False)
      | b # _ \<Rightarrow> (administrator_password b, administrator_password b \<noteq> []))"

definition GetOk_sas_token :: "ssis_fields ResourceData \<Rightarrow> string \<times> bool" where
  "GetOk_sas_token d =
     (case custom_setup_script (Fields d) of
        [] \<Rightarrow> ([], False)
      | b # _ \<Rightarrow> (sas_token b, sas_token b \<noteq> []))"

definition flattenDataFactoryIntegrationRuntimeAzureSsisCatalogInfo ::
    "IntegrationRuntimeSsisCatalogInfo option \<Rightarrow> ssis_fields ResourceData \<Rightarrow>
     catalog_info_block list" where
  "flattenDataFactoryIntegrationRuntimeAzureSsisCatalogInfo ssisProperties d =
     (case ssisProperties of
        None \<Rightarrow> []
      | Some ci \<Rightarrow>
          let (elasticPoolName, elasticPoolNameMatched) =
                parseDataFactoryIntegrationRuntimeElasticPool (From_string (CatalogPricingTier ci));
              pricingTier =
                (if \<not> elasticPoolNameMatched then From_string (CatalogPricingTier ci) else []);
              (adminPassword, ok) = GetOk_administrator_password d;
              administratorPassword = (if ok then adminPassword else [])
          in [\<lparr>server_endpoint = From_string (CatalogServerEndpoint ci),
               administrator_login = From_string (CatalogAdminUserName ci),
               administrator_password = administratorPassword,
               pricing_tier = pricingTier,
               elastic_pool_name = elasticPoolName,
               dual_standby_pair_name = From_string (DualStandbyPairName ci)\<rparr>])"

definition flattenDataFactoryIntegrationRuntimeAzureSsisProxy ::
    "IntegrationRuntimeDataProxyProperties option \<Rightarrow> proxy_block list" where
  "flattenDataFactoryIntegrationRuntimeAzureSsisProxy input =
     (case input of
        None \<Rightarrow> []
      | Some p \<Rightarrow>
          [\<lparr>self_hosted_integration_runtime_name =
              (case ConnectVia p of None \<Rightarrow> [] | Some r \<Rightarrow> From_string (ReferenceName r)),
            staging_storage_linked_service_name =
              (case StagingLinkedService p of None \<Rightarrow> [] | Some r \<Rightarrow> From_string (ReferenceName r)),
            path = From_string (Path p)\<rparr>])"

definition flattenDataFactoryIntegrationRuntimeUserAssignedCredential ::
    "string option \<Rightarrow> string option" where
  "flattenDataFactoryIntegrationRuntimeUserAssignedCredential credentialProperties =
     credentialProperties"

text \<open>
  The flattened \<open>custom_setup_script\<close> is a map that holds \<open>sas_token\<close> only when the
  prior state has one.
\<close>

record custom_setup_script_map =
  map_blob_container_uri :: string
  map_sas_token :: "string option"

definition flattenDataFactoryIntegrationRuntimeAzureSsisCustomSetupScript ::
    "IntegrationRuntimeCustomSetupScriptProperties option \<Rightarrow> ssis_fields ResourceData \<Rightarrow>
     custom_setup_script_map list" where
  "flattenDataFactoryIntegrationRuntimeAzureSsisCustomSetupScript customSetupScriptProperties d =
     (case customSetupScriptProperties of
        None \<Rightarrow> []
      | Some p \<Rightarrow>
          let (sasToken, ok) = GetOk_sas_token d
          in [\<lparr>map_blob_container_uri = From_string (BlobContainerUri p),
               map_sas_token = (if ok then Some sasToken else None)\<rparr>])"

definition flattenDataFactoryIntegrationRuntimeAzureSsisPackageStore ::
    "PackageStore list option \<Rightarrow> package_store_block list" where
  "flattenDataFactoryIntegrationRuntimeAzureSsisPackageStore input =
     (case input of
        None \<Rightarrow> []
      | Some items \<Rightarrow>
          map (\<lambda>item. \<lparr>package_store_name = PackageStore_Name item,
                         package_store_linked_service_name =
                           From_string (ReferenceName (PackageStoreLinkedService item))\<rparr>)
              items)"

definition flattenDataFactoryIntegrationRuntimeAzureSsisKeyVaultSecretReference ::
    "AzureKeyVaultSecretReference option \<Rightarrow> key_vault_secret_block list" where
  "flattenDataFactoryIntegrationRuntimeAzureSsisKeyVaultSecretReference input =
     (case input of
        None \<Rightarrow> []
      | Some r \<Rightarrow>
          [\<lparr>linked_service_name = Store_ReferenceName r,
            parameters = (case Store_Parameters r of None \<Rightarrow> [] | Some ps \<Rightarrow> ps),
            secret_name = From_string (SecretName r),
            secret_version = From_string (SecretVersion r)\<rparr>])"

definition flattenDataFactoryIntegrationRuntimeCustomerVnetIntegration ::
    "string option \<Rightarrow> express_vnet_integration_block list" where
  "flattenDataFactoryIntegrationRuntimeCustomerVnetIntegration input =
     (case input of None \<Rightarrow> [] | Some s \<Rightarrow> [\<lparr>express_subnet_id = s\<rparr>])"

subsection \<open>Reading sensitive values back from the prior state\<close>

text \<open>
  \<open>d.Get\<close> hands a block over as a \<open>map[string]interface{}\<close> with an entry for every field
  of the block's schema. \<open>raw_block\<close> keeps the entries that are strings; the type
  assertion \<open>raw[k].(string)\<close> panics on any other key.
\<close>

type_synonym raw_block = "string \<rightharpoonup> string"

definition component_raw :: "component_block \<Rightarrow> raw_block" where
  "component_raw c = [''name'' \<mapsto> component_name c, ''license'' \<mapsto> license c]"

definition command_key_raw :: "command_key_block \<Rightarrow> raw_block" where
  "command_key_raw k =
     [''target_name'' \<mapsto> target_name k, ''user_name'' \<mapsto> user_name k,
      ''password'' \<mapsto> password k]"

text \<open>
  The inner loop over the filters: \<open>Some found\<close>, or \<open>None\<close> when a type assertion
  panics. Go ranges over the filter map in an order the language leaves open; the filters
  are taken in the order the caller writes them. The order changes nothing unless a
  lookup panics.
\<close>

fun filters_match :: "raw_block \<Rightarrow> (string \<times> string) list \<Rightarrow> bool option" where
  "filters_match raw [] = Some True"
| "filters_match raw ((k, v) # filters) =
     (case raw k of
        None \<Rightarrow> None
      | Some x \<Rightarrow> if x \<noteq> v then Some False else filters_match raw filters)"

fun readBackSensitiveValue_loop ::
    "raw_block list \<Rightarrow> string \<Rightarrow> (string \<times> string) list \<Rightarrow> string option" where
  "readBackSensitiveValue_loop [] propertyName filters = Some []"
| "readBackSensitiveValue_loop (raw # input) propertyName filters =
     (case filters_match raw filters of
        None \<Rightarrow> None
      | Some True \<Rightarrow> raw propertyName
      | Some False \<Rightarrow> readBackSensitiveValue_loop input propertyName filters)"

definition readBackSensitiveValue ::
    "raw_block list \<Rightarrow> string \<Rightarrow> (string \<times> string) list \<Rightarrow> string option" where
  "readBackSensitiveValue input propertyName filters =
     (if length input = 0 then Some []
      else readBackSensitiveValue_loop input propertyName filters)"

text \<open>\<open>env[k] = v\<close> on the association list of the \<open>environment\<close> map.\<close>

fun map_assign :: "string \<Rightarrow> string \<Rightarrow> (string \<times> string) list \<Rightarrow> (string \<times> string) list" where
  "map_assign k v [] = [(k, v)]"
| "map_assign k v ((k', v') # m) =
     (if k' = k then (k, v) # m else (k', v') # map_assign k v m)"

definition as_KeyVaultSecretReference :: "SecretBase option \<Rightarrow> AzureKeyVaultSecretReference option" where
  "as_KeyVaultSecretReference s =
     (case s of Some (KeyVaultSecretReference r) \<Rightarrow> Some r | _ \<Rightarrow> None)"

text \<open>
  The loop of \<open>flattenDataFactoryIntegrationRuntimeAzureSsisExpressCustomSetUp\<close> over the
  setups of the response, with the block built so far.
\<close>

fun flattenExpressCustomSetUp_loop ::
    "raw_block list \<Rightarrow> raw_block list \<Rightarrow> CustomSetupBase list \<Rightarrow>
     express_custom_setup_block \<Rightarrow> express_custom_setup_block option" where
  "flattenExpressCustomSetUp_loop oldComponents oldCmdKey [] acc = Some acc"
| "flattenExpressCustomSetUp_loop oldComponents oldCmdKey (AzPowerShellSetup version # input) acc =
     flattenExpressCustomSetUp_loop oldComponents oldCmdKey input
       (acc\<lparr>powershell_version := version\<rparr>)"
| "flattenExpressCustomSetUp_loop oldComponents oldCmdKey (ComponentSetup nm licenseKey # input) acc =
     (case readBackSensitiveValue oldComponents ''license'' [(''name'', nm)] of
        None \<Rightarrow> None
      | Some lic \<Rightarrow>
          flattenExpressCustomSetUp_loop oldComponents oldCmdKey input
            (acc\<lparr>component := component acc @
               [\<lparr>component_name = nm, license = lic,
                 key_vault_license =
                   flattenDataFactoryIntegrationRuntimeAzureSsisKeyVaultSecretReference
                     (as_KeyVaultSecretReference licenseKey)\<rparr>]\<rparr>))"
| "flattenExpressCustomSetUp_loop oldComponents oldCmdKey (EnvironmentVariableSetup k v # input) acc =
     flattenExpressCustomSetUp_loop oldComponents oldCmdKey input
       (acc\<lparr>environment := map_assign k v (environment acc)\<rparr>)"
| "flattenExpressCustomSetUp_loop oldComponents oldCmdKey (CmdkeySetup targetName userName pw # input) acc =
     (let nm = From_string targetName; un = From_string userName
      in case readBackSensitiveValue oldCmdKey ''password''
                [(''target_name'', nm), (''user_name'', un)] of
           None \<Rightarrow> None
         | Some p \<Rightarrow>
             flattenExpressCustomSetUp_loop oldComponents oldCmdKey input
               (acc\<lparr>command_key := command_key acc @
                  [\<lparr>target_name = nm, user_name = un, password = p,
                    key_vault_password =
                      flattenDataFactoryIntegrationRuntimeAzureSsisKeyVaultSecretReference
                        (as_KeyVaultSecretReference pw)\<rparr>]\<rparr>))"
| "flattenExpressCustomSetUp_loop oldComponents oldCmdKey (OtherSetup # input) acc =
     flattenExpressCustomSetUp_loop oldComponents oldCmdKey input acc"

definition flattenDataFactoryIntegrationRuntimeAzureSsisExpressCustomSetUp ::
    "CustomSetupBase list option \<Rightarrow> ssis_fields ResourceData \<Rightarrow>
     express_custom_setup_block list option" where
  "flattenDataFactoryIntegrationRuntimeAzureSsisExpressCustomSetUp input d =
     (case input of
        None \<Rightarrow> Some []
      | Some setups \<Rightarrow>
          let oldComponents =
                (case express_custom_setup (Fields d) of
                   [] \<Rightarrow> [] | oldState # _ \<Rightarrow> map component_raw (component oldState));
              oldCmdKey =
                (case express_custom_setup (Fields d) of
                   [] \<Rightarrow> [] | oldState # _ \<Rightarrow> map command_key_raw (command_key oldState))
          in map_option (\<lambda>block. [block])
               (flattenExpressCustomSetUp_loop oldComponents oldCmdKey setups
                  \<lparr>environment = [], powershell_version = [], component = [],
                   command_key = []\<rparr>))"

section \<open>The derivative matcher decides the language\<close>

lemma nullable_accepts: "nullable r \<longleftrightarrow> accepts r []"
proof (induction r)
  case (Seq r1 r2)
  show ?case
  proof
    assume "nullable (Seq r1 r2)"
    then have "accepts r1 []" "accepts r2 []" using Seq by simp_all
    then have "accepts (Seq r1 r2) ([] @ [])" by (rule acc_Seq)
    then show "accepts (Seq r1 r2) []" by simp
  next
    assume "accepts (Seq r1 r2) []"
    then show "nullable (Seq r1 r2)" using Seq by (auto elim: acc_SeqE)
  qed
qed (auto intro: accepts.intros elim: acc_NeverE acc_AtomE acc_AltE)

lemma star_cons:
  assumes "accepts R w" "R = Star r" "w = c # s"
  shows "\<exists>u v. s = u @ v \<and> accepts r (c # u) \<and> accepts (Star r) v"
  using assms
proof (induction arbitrary: s rule: accepts.induct)
  case (acc_StarStep r0 s0 t)
  show ?case
  proof (cases s0)
    case Nil
    then show ?thesis using acc_StarStep by simp
  next
    case (Cons a u)
    then show ?thesis using acc_StarStep by auto
  qed
qed simp_all

lemma deriv_accepts: "accepts (deriv c r) s \<longleftrightarrow> accepts r (c # s)"
proof (induction r arbitrary: s)
  case Never
  show ?case by (auto elim: acc_NeverE)
next
  case Eps
  show ?case by (auto elim: acc_NeverE acc_EpsE)
next
  case (Atom p)
  show ?case by (auto elim: acc_NeverE acc_EpsE acc_AtomE intro: accepts.intros)
next
  case (Alt r1 r2)
  then show ?case by (auto elim!: acc_AltE intro: accepts.intros)
next
  case (Seq r1 r2)
  show ?case
  proof
    assume "accepts (deriv c (Seq r1 r2)) s"
    then consider (left) u v where "s = u @ v" "accepts (deriv c r1) u" "accepts r2 v"
      | (right) "nullable r1" "accepts (deriv c r2) s"
      by (auto split: if_splits elim!: acc_AltE acc_SeqE)
    then show "accepts (Seq r1 r2) (c # s)"
    proof cases
      case left
      then have "accepts r1 (c # u)" using Seq by simp
      then have "accepts (Seq r1 r2) ((c # u) @ v)" using left(3) by (rule acc_Seq)
      then show ?thesis using left(1) by simp
    next
      case right
      then have "accepts r1 []" "accepts r2 (c # s)" using Seq nullable_accepts by simp_all
      then have "accepts (Seq r1 r2) ([] @ (c # s))" by (rule acc_Seq)
      then show ?thesis by simp
    qed
  next
    assume "accepts (Seq r1 r2) (c # s)"
    then obtain u v where uv: "c # s = u @ v" "accepts r1 u" "accepts r2 v"
      by (auto elim: acc_SeqE)
    show "accepts (deriv c (Seq r1 r2)) s"
    proof (cases u)
      case Nil
      then have "nullable r1" "accepts (deriv c r2) s"
        using uv Seq nullable_accepts by simp_all
      then show ?thesis by (simp add: acc_AltR)
    next
      case (Cons a u')
      then have "a = c" "s = u' @ v" using uv by simp_all
      then have "accepts (deriv c r1) u'" using uv Cons Seq by simp
      then have "accepts (Seq (deriv c r1) r2) (u' @ v)" using uv(3) by (rule acc_Seq)
      then show ?thesis using \<open>s = u' @ v\<close> by (simp add: acc_AltL)
    qed
  qed
next
  case (Star r)
  show ?case
  proof
    assume "accepts (deriv c (Star r)) s"
    then obtain u v where uv: "s = u @ v" "accepts (deriv c r) u" "accepts (Star r) v"
      by (auto elim: acc_SeqE)
    then have "accepts r (c # u)" using Star by simp
    then have "accepts (Star r) ((c # u) @ v)" using uv(3) by (rule acc_StarStep)
    then show "accepts (Star r) (c # s)" using uv(1) by simp
  next
    assume "accepts (Star r) (c # s)"
    then obtain u v where uv: "s = u @ v" "accepts r (c # u)" "accepts (Star r) v"
      using star_cons by blast
    then have "accepts (deriv c r) u" using Star by simp
    then have "accepts (Seq (deriv c r) (Star r)) (u @ v)" using uv(3) by (rule acc_Seq)
    then show "accepts (deriv c (Star r)) s" using uv(1) by simp
  qed
qed

lemma MatchString_accepts: "MatchString r s \<longleftrightarrow> accepts r s"
  unfolding MatchString_def
  by (induction s arbitrary: r) (simp_all add: nullable_accepts deriv_accepts)

lemma accepts_Seq_iff:
  "accepts (Seq r r') s \<longleftrightarrow> (\<exists>u v. s = u @ v \<and> accepts r u \<and> accepts r' v)"
proof
  assume "accepts (Seq r r') s"
  then show "\<exists>u v. s = u @ v \<and> accepts r u \<and> accepts r' v"
    by (rule acc_SeqE) blast
next
  assume "\<exists>u v. s = u @ v \<and> accepts r u \<and> accepts r' v"
  then show "accepts (Seq r r') s"
    by (auto intro: acc_Seq)
qed

lemma accepts_Eps_iff: "accepts Eps s \<longleftrightarrow> s = []"
  by (auto elim: acc_EpsE intro: acc_Eps)

lemma accepts_Atom_iff: "accepts (Atom p) s \<longleftrightarrow> (\<exists>c. s = [c] \<and> p c)"
  by (auto elim: acc_AtomE intro: acc_Atom)

lemma accepts_Lit_iff: "accepts (Lit w) s \<longleftrightarrow> s = w"
  by (induction w arbitrary: s) (auto simp: accepts_Seq_iff accepts_Eps_iff accepts_Atom_iff)

lemma accepts_Star_Atom_iff: "accepts (Star (Atom p)) s \<longleftrightarrow> (\<forall>c \<in> set s. p c)"
proof (induction s)
  case Nil
  show ?case by (simp add: acc_StarNil)
next
  case (Cons c s)
  have "accepts (Star (Atom p)) (c # s) \<longleftrightarrow> accepts (deriv c (Star (Atom p))) s"
    by (simp only: deriv_accepts)
  also have "\<dots> \<longleftrightarrow> p c \<and> accepts (Star (Atom p)) s"
    by (auto simp: accepts_Seq_iff accepts_Eps_iff elim: acc_NeverE)
  finally show ?case using Cons by simp
qed

lemma accepts_Plus_Atom_iff:
  "accepts (Plus (Atom p)) s \<longleftrightarrow> s \<noteq> [] \<and> (\<forall>c \<in> set s. p c)"
proof (cases s)
  case Nil
  then show ?thesis
    by (auto simp: Plus_def accepts_Seq_iff accepts_Atom_iff)
next
  case (Cons c t)
  have "accepts (Plus (Atom p)) (c # t) \<longleftrightarrow> accepts (deriv c (Plus (Atom p))) t"
    by (simp only: deriv_accepts)
  also have "\<dots> \<longleftrightarrow> p c \<and> accepts (Star (Atom p)) t"
    by (auto simp: Plus_def accepts_Seq_iff accepts_Eps_iff elim: acc_NeverE)
  finally show ?thesis using Cons by (simp add: accepts_Star_Atom_iff)
qed

section \<open>azurerm_data_factory_integration_runtime_azure_ssis: schema and mapping properties\<close>

lemma length_elastic_pool_prefix: "length elastic_pool_prefix = 19"
  by (simp add: elastic_pool_prefix_def)

lemma length_elastic_pool_suffix: "length elastic_pool_suffix = 2"
  by (simp add: elastic_pool_suffix_def)

lemma elastic_pool_regex_iff:
  "MatchString elastic_pool_regex s \<longleftrightarrow>
     (\<exists>g. g \<noteq> [] \<and> newline \<notin> set g \<and> s = elastic_pool_prefix @ g @ elastic_pool_suffix)"
  unfolding MatchString_accepts elastic_pool_regex_def
  by (auto simp: accepts_Seq_iff accepts_Lit_iff accepts_Plus_Atom_iff)

lemma elastic_pool_group_unique:
  "take (length (elastic_pool_prefix @ g @ elastic_pool_suffix) - 21)
     (drop 19 (elastic_pool_prefix @ g @ elastic_pool_suffix)) = g"
  by (simp add: length_elastic_pool_prefix length_elastic_pool_suffix)

lemma parse_elastic_pool_form:
  assumes "g \<noteq> []" "newline \<notin> set g"
  shows "parseDataFactoryIntegrationRuntimeElasticPool
           (elastic_pool_prefix @ g @ elastic_pool_suffix) = (g, True)"
proof -
  have "MatchString elastic_pool_regex (elastic_pool_prefix @ g @ elastic_pool_suffix)"
    using assms elastic_pool_regex_iff by blast
  then have "elastic_pool_FindStringSubmatch (elastic_pool_prefix @ g @ elastic_pool_suffix)
      = [elastic_pool_prefix @ g @ elastic_pool_suffix, g]"
    unfolding elastic_pool_FindStringSubmatch_def
    by (simp only: elastic_pool_group_unique if_True)
  then show ?thesis
    unfolding parseDataFactoryIntegrationRuntimeElasticPool_def
    by simp
qed

lemma parse_elastic_pool_no_match:
  assumes "\<not> MatchString elastic_pool_regex t"
  shows "parseDataFactoryIntegrationRuntimeElasticPool t = ([], False)"
  using assms
  by (simp add: parseDataFactoryIntegrationRuntimeElasticPool_def
      elastic_pool_FindStringSubmatch_def)

lemma parse_elastic_pool_other:
  assumes "\<forall>g. t \<noteq> elastic_pool_prefix @ g @ elastic_pool_suffix"
  shows "parseDataFactoryIntegrationRuntimeElasticPool t = ([], False)"
  using assms elastic_pool_regex_iff parse_elastic_pool_no_match by blast

lemma parse_format_newline:
  "parseDataFactoryIntegrationRuntimeElasticPool
     (formatDataFactoryIntegrationRuntimeElasticPool [newline]) = ([], False)"
proof -
  have "\<not> MatchString elastic_pool_regex (elastic_pool_prefix @ [newline] @ elastic_pool_suffix)"
    by (simp add: elastic_pool_regex_iff)
  then show ?thesis
    by (simp add: formatDataFactoryIntegrationRuntimeElasticPool_def parse_elastic_pool_no_match)
qed

lemma flatten_expand_catalog_info:
  "map (\<lambda>x. (elastic_pool_name x, pricing_tier x))
     (flattenDataFactoryIntegrationRuntimeAzureSsisCatalogInfo (expand_catalog_info [b]) d) =
   [(fst (parseDataFactoryIntegrationRuntimeElasticPool
            (if elastic_pool_name b \<noteq> []
             then formatDataFactoryIntegrationRuntimeElasticPool (elastic_pool_name b)
             else pricing_tier b)),
     if snd (parseDataFactoryIntegrationRuntimeElasticPool
            (if elastic_pool_name b \<noteq> []
             then formatDataFactoryIntegrationRuntimeElasticPool (elastic_pool_name b)
             else pricing_tier b))
     then []
     else (if elastic_pool_name b \<noteq> []
             then formatDataFactoryIntegrationRuntimeElasticPool (elastic_pool_name b)
             else pricing_tier b))]"
  by (simp add: flattenDataFactoryIntegrationRuntimeAzureSsisCatalogInfo_def
      expand_catalog_info_def From_string_def Let_def split: prod.splits)

text \<open>
  Claim C5, as the code has it. For every non-empty elastic pool name \<open>s\<close> that holds
  no line feed, parsing the formatted name returns \<open>(s, true)\<close>; for every string \<open>t\<close>
  that is not \<^verbatim>\<open>ELASTIC_POOL(name="\<close> followed by some text and \<^verbatim>\<open>")\<close>, the parse
  returns \<open>("", false)\<close>. Hence flattening an expanded \<open>catalog_info\<close> block gives the
  elastic pool name back (with an empty pricing tier) when the block had one without a
  line feed, and the pricing tier (with an empty elastic pool name) when the block had
  no elastic pool name and its pricing tier is not of that form.
\<close>

theorem elastic_pool_parse_format:
  "(s \<noteq> [] \<and> newline \<notin> set s \<longrightarrow>
      parseDataFactoryIntegrationRuntimeElasticPool
        (formatDataFactoryIntegrationRuntimeElasticPool s) = (s, True)) \<and>
   ((\<forall>g. t \<noteq> elastic_pool_prefix @ g @ elastic_pool_suffix) \<longrightarrow>
      parseDataFactoryIntegrationRuntimeElasticPool t = ([], False)) \<and>
   (elastic_pool_name b \<noteq> [] \<and> newline \<notin> set (elastic_pool_name b) \<longrightarrow>
      map (\<lambda>x. (elastic_pool_name x, pricing_tier x))
        (flattenDataFactoryIntegrationRuntimeAzureSsisCatalogInfo (expand_catalog_info [b]) d) =
      [(elastic_pool_name b, [])]) \<and>
   (elastic_pool_name b = [] \<and>
    (\<forall>g. pricing_tier b \<noteq> elastic_pool_prefix @ g @ elastic_pool_suffix) \<longrightarrow>
      map (\<lambda>x. (elastic_pool_name x, pricing_tier x))
        (flattenDataFactoryIntegrationRuntimeAzureSsisCatalogInfo (expand_catalog_info [b]) d) =
      [([], pricing_tier b)])"
proof (intro conjI impI)
  assume "s \<noteq> [] \<and> newline \<notin> set s"
  then show "parseDataFactoryIntegrationRuntimeElasticPool
        (formatDataFactoryIntegrationRuntimeElasticPool s) = (s, True)"
    by (simp add: formatDataFactoryIntegrationRuntimeElasticPool_def parse_elastic_pool_form)
next
  assume "\<forall>g. t \<noteq> elastic_pool_prefix @ g @ elastic_pool_suffix"
  then show "parseDataFactoryIntegrationRuntimeElasticPool t = ([], False)"
    by (rule parse_elastic_pool_other)
next
  assume a: "elastic_pool_name b \<noteq> [] \<and> newline \<notin> set (elastic_pool_name b)"
  then have "parseDataFactoryIntegrationRuntimeElasticPool
      (formatDataFactoryIntegrationRuntimeElasticPool (elastic_pool_name b))
      = (elastic_pool_name b, True)"
    by (simp add: formatDataFactoryIntegrationRuntimeElasticPool_def parse_elastic_pool_form)
  then show "map (\<lambda>x. (elastic_pool_name x, pricing_tier x))
        (flattenDataFactoryIntegrationRuntimeAzureSsisCatalogInfo (expand_catalog_info [b]) d) =
      [(elastic_pool_name b, [])]"
    using a by (simp add: flatten_expand_catalog_info)
next
  assume a: "elastic_pool_name b = [] \<and>
    (\<forall>g. pricing_tier b \<noteq> elastic_pool_prefix @ g @ elastic_pool_suffix)"
  then have "parseDataFactoryIntegrationRuntimeElasticPool (pricing_tier b) = ([], False)"
    by (simp add: parse_elastic_pool_other)
  then show "map (\<lambda>x. (elastic_pool_name x, pricing_tier x))
        (flattenDataFactoryIntegrationRuntimeAzureSsisCatalogInfo (expand_catalog_info [b]) d) =
      [([], pricing_tier b)]"
    using a by (simp add: flatten_expand_catalog_info)
qed

text \<open>The theorem at the pool name \<open>pool-1\<close> and the pricing tier \<open>GP_Gen5_2\<close>.\<close>

theorem elastic_pool_parse_format_witness:
  "parseDataFactoryIntegrationRuntimeElasticPool
     (formatDataFactoryIntegrationRuntimeElasticPool ''pool-1'') = (''pool-1'', True) \<and>
   parseDataFactoryIntegrationRuntimeElasticPool ''GP_Gen5_2'' = ([], False) \<and>
   map (\<lambda>x. (elastic_pool_name x, pricing_tier x))
     (flattenDataFactoryIntegrationRuntimeAzureSsisCatalogInfo
        (expand_catalog_info
           [\<lparr>server_endpoint = ''sql.example'', administrator_login = [],
             administrator_password = [], pricing_tier = [],
             elastic_pool_name = ''pool-1'', dual_standby_pair_name = []\<rparr>])
        ssis_zero_data) =
     [(''pool-1'', [])]"
proof -
  have h1: "''pool-1'' \<noteq> [] \<and> newline \<notin> set ''pool-1''"
    by (simp add: newline_def)
  have h2: "\<forall>g. ''GP_Gen5_2'' \<noteq> elastic_pool_prefix @ g @ elastic_pool_suffix"
    by (simp add: elastic_pool_prefix_def)
  show ?thesis
    using h1 h2
      elastic_pool_parse_format [of "''pool-1''" "''GP_Gen5_2''"
        "\<lparr>server_endpoint = ''sql.example'', administrator_login = [],
             administrator_password = [], pricing_tier = [],
             elastic_pool_name = ''pool-1'', dual_standby_pair_name = []\<rparr>"
        ssis_zero_data]
    by simp
qed

text \<open>
  Claim C5 as stated fails for a name that holds a line feed: \<open>.\<close> does not match it,
  so the formatted name does not parse.
\<close>

theorem elastic_pool_parse_format_counterexample:
  "[newline] \<noteq> [] \<and>
   parseDataFactoryIntegrationRuntimeElasticPool
     (formatDataFactoryIntegrationRuntimeElasticPool [newline]) \<noteq> ([newline], True)"
  by (simp add: parse_format_newline)

text \<open>
  Claim C7. The validator of \<open>copy_compute_scale.0.data_integration_unit\<close> accepts an
  integer \<open>v\<close> if and only if \<open>4 \<le> v \<le> 256\<close> and \<open>v\<close> is divisible by 4.
\<close>

theorem data_integration_unit_validator:
  "accepted data_integration_unit_ValidateFunc v \<longleftrightarrow> 4 \<le> v \<and> v \<le> 256 \<and> 4 dvd v"
  by (auto simp: accepted_def data_integration_unit_ValidateFunc_def All_def IntBetween_def
      IntDivisibleBy_def)

text \<open>The theorem at 8, 6, 260 and 0.\<close>

theorem data_integration_unit_validator_witness:
  "accepted data_integration_unit_ValidateFunc 8 \<and>
   \<not> accepted data_integration_unit_ValidateFunc 6 \<and>
   \<not> accepted data_integration_unit_ValidateFunc 260 \<and>
   \<not> accepted data_integration_unit_ValidateFunc 0"
  using data_integration_unit_validator [of 8] data_integration_unit_validator [of 6]
    data_integration_unit_validator [of 260] data_integration_unit_validator [of 0]
  by simp

text \<open>
  Claim C10 says that no accepted name has two consecutive dashes, as the error message
  of the validator states. The pattern accepts \<open>a--b\<close>: the group \<open>(-|-?[a-zA-Z0-9]+)\<close>
  can match a single dash twice in a row.
\<close>

theorem name_validator_accepts_consecutive_dashes:
  "accepted name_ValidateFunc ''a--b''"
  by (simp add: accepted_def name_ValidateFunc_def StringMatch_def MatchString_def
      name_regex_def Plus_def Opt_def is_alnum_def)

text \<open>
  Claim C1 says that flattening the expanded \<open>pipeline_external_compute_scale\<close> block
  returns its values. For the block with 2 external nodes, 3 pipeline nodes and a time
  to live of 5 (and no \<open>vnet_integration\<close> block, whatever the other fields are) the
  flattened block has 3 external nodes: flatten reads \<open>number_of_external_nodes\<close> from
  \<open>NumberOfPipelineNodes\<close>.
\<close>

theorem pipeline_external_nodes_not_restored:
  "map_option
     (\<lambda>cp. flattenDataFactoryIntegrationRuntimeAzureSsisPipelineExternalComputeScaleProperties
              (PipelineExternalComputeScale cp))
     (expandDataFactoryIntegrationRuntimeAzureSsisComputeProperties sdk
        (d\<lparr>Fields := (Fields d)\<lparr>vnet_integration := [],
             pipeline_external_compute_scale :=
               [\<lparr>number_of_external_nodes = 2, number_of_pipeline_nodes = 3,
                 time_to_live = 5\<rparr>]\<rparr>\<rparr>)) =
   Some [\<lparr>number_of_external_nodes = 3, number_of_pipeline_nodes = 3, time_to_live = 5\<rparr>]"
  by (simp add: expandDataFactoryIntegrationRuntimeAzureSsisComputeProperties_def
      expand_vnet_integration_def expand_pipeline_external_compute_scale_def
      expand_copy_compute_scale_def new_PipelineExternalComputeScaleProperties_def
      flattenDataFactoryIntegrationRuntimeAzureSsisPipelineExternalComputeScaleProperties_def
      From_int64_def Let_def split: list.splits)

end
